theory Spec2Isabelle
  imports Complex_Main "HOL-Library.Char_ord" "HOL-Library.List_Lexorder"
begin

section \<open>Exceptions\<close>

text \<open>
  The package raises a single exception class of its own, \<open>CellmapsCoEmbeddingError\<close>,
  and tells its failures apart by message only. The messages of \<open>runner.py\<close> and of
  \<open>cellmaps_coembeddingcmd.py\<close> are the constructors of \<open>message\<close>:
  \<^item> \<open>UseEitherNotBoth\<close>: "Use either ppi_embeddingdir and image_embeddingdir or embeddings, not both"
  \<^item> \<open>EmbeddingFileNotFound d\<close>: "Embedding file not found in d"
  \<^item> \<open>NamesDoNotMatch\<close>: "Input list of embedding names does not match number of embeddings."
  \<^item> \<open>OutdirIsNone\<close>: "outdir is None"
  \<^item> \<open>OutdirMustBeSet\<close>: "outdir must be set"
  \<^item> \<open>NoEmbeddingsProvided\<close>: "No embeddings provided"
  \<^item> \<open>InvalidProvenance\<close>: "Invalid provenance: ..."
  \<^item> \<open>KeyMissingInProvenance\<close>: "Key missing in provenance: ..."
  \<^item> \<open>CmdUseEitherNotBoth\<close>: "Use either --ppi_embeddingdir and --image_embeddingdir or --embeddings, not both"
  \<^item> \<open>OnlyTwoEmbeddingsForMuse\<close>: "Only two embeddings are supported with --embeddings for MUSE algorithm"
  \<^item> \<open>DirsOrEmbeddingsRequired\<close>: "Either --ppi_embeddingdir and --image_embeddingdir, or --embeddings are required"

  The other constructors of \<open>error\<close> are the built-in exceptions the code can run into.
  All of them derive from Python's \<open>Exception\<close>.
\<close>

datatype message =
    UseEitherNotBoth
  | EmbeddingFileNotFound string
  | NamesDoNotMatch
  | OutdirIsNone
  | OutdirMustBeSet
  | NoEmbeddingsProvided
  | InvalidProvenance
  | KeyMissingInProvenance
  | CmdUseEitherNotBoth
  | OnlyTwoEmbeddingsForMuse
  | DirsOrEmbeddingsRequired

datatype error =
    CellmapsCoEmbeddingError message
  | TypeError
  | KeyError
  | IndexError
  | ValueError
  | NameError
  | AttributeError
  | OSError
  | ImportError
  | External string

section \<open>Paths and the names of the embedding files\<close>

text \<open>
  \<open>cellmaps_utils.constants\<close>: the two file names looked for in an embedding directory
  (the command's help text spells them out) and the name of the merged table.
\<close>

definition PPI_EMBEDDING_FILE :: string where
  "PPI_EMBEDDING_FILE = ''ppi_emd.tsv''"

definition IMAGE_EMBEDDING_FILE :: string where
  "IMAGE_EMBEDDING_FILE = ''image_emd.tsv''"

definition CO_EMBEDDING_FILE :: string where
  "CO_EMBEDDING_FILE = ''coembedding_emd.tsv''"

text \<open>\<open>os.path.join\<close> on two components (posixpath).\<close>

definition path_join :: "string \<Rightarrow> string \<Rightarrow> string" where
  "path_join a b =
     (if b \<noteq> [] \<and> hd b = CHR ''/'' then b
      else if a = [] \<or> last a = CHR ''/'' then a @ b
      else a @ ''/'' @ b)"

text \<open>\<open>os.path.join(None, b)\<close> raises \<open>TypeError\<close>.\<close>

definition os_path_join :: "string option \<Rightarrow> string \<Rightarrow> error + string" where
  "os_path_join a b = (case a of None \<Rightarrow> Inl TypeError | Some d \<Rightarrow> Inr (path_join d b))"

section \<open>EmbeddingGenerator: locating files and names\<close>

text \<open>Truth value of an optional string and of an optional list, as \<open>if x:\<close> tests it.\<close>

definition truthy :: "'a list option \<Rightarrow> bool" where
  "truthy x = (case x of None \<Rightarrow> False | Some v \<Rightarrow> v \<noteq> [])"

text \<open>
  \<open>_get_embedding_file_from_dirs\<close>; \<open>exists\<close> is \<open>os.path.exists\<close> on the host's
  file system.
\<close>

definition get_embedding_file_from_dirs :: "(string \<Rightarrow> bool) \<Rightarrow> string option \<Rightarrow> error + string" where
  "get_embedding_file_from_dirs exists embedding_dir =
     (case os_path_join embedding_dir PPI_EMBEDDING_FILE of
        Inl e \<Rightarrow> Inl e
      | Inr path_ppi \<Rightarrow>
          if exists path_ppi then Inr path_ppi
          else (case os_path_join embedding_dir IMAGE_EMBEDDING_FILE of
                  Inl e \<Rightarrow> Inl e
                | Inr path_image \<Rightarrow>
                    if exists path_image then Inr path_image
                    else Inl (CellmapsCoEmbeddingError
                                (EmbeddingFileNotFound (the embedding_dir)))))"

text \<open>Decimal rendering of a natural number, for \<open>'emd_{}'.format(x)\<close>.\<close>

definition digit_char :: "nat \<Rightarrow> char" where
  "digit_char d = char_of (48 + d)"

function str_nat :: "nat \<Rightarrow> string" where
  "str_nat n = (if n < 10 then [digit_char n] else str_nat (n div 10) @ [digit_char (n mod 10)])"
  by pat_completeness auto
termination
  by (relation "measure id") auto

declare str_nat.simps [simp del]

text \<open>
  Lines 72 to 77 of \<open>_get_embedding_files_and_names\<close>: the default names, the count
  check and the result. \<open>len(None)\<close> raises \<open>TypeError\<close>.
\<close>

definition check_names ::
  "string list option \<Rightarrow> string list option \<Rightarrow> string list option \<Rightarrow> error + string list \<times> string list" where
  "check_names embedding_files embeddings names =
     (case (case names of
              None \<Rightarrow> (case embedding_files of
                         None \<Rightarrow> Inl TypeError
                       | Some fs \<Rightarrow> Inr (map (\<lambda>x. ''emd_'' @ str_nat x) [0..<length fs]))
            | Some ns \<Rightarrow> Inr ns) of
        Inl e \<Rightarrow> Inl e
      | Inr ns \<Rightarrow>
          (case embeddings of
             None \<Rightarrow> Inl TypeError
           | Some es \<Rightarrow>
               if length ns \<noteq> length es
               then Inl (CellmapsCoEmbeddingError NamesDoNotMatch)
               else Inr (es, ns)))"

text \<open>
  \<open>_get_embedding_files_and_names\<close>. On the directory path \<open>names\<close> starts as the
  empty list and is replaced by \<open>['PPI', 'image']\<close> only when no names were given.
\<close>

definition get_embedding_files_and_names ::
  "(string \<Rightarrow> bool) \<Rightarrow> string list option \<Rightarrow> string option \<Rightarrow> string option \<Rightarrow>
   string list option \<Rightarrow> error + string list \<times> string list" where
  "get_embedding_files_and_names exists embedding_files ppi_embeddingdir image_embeddingdir embedding_names =
     (if truthy ppi_embeddingdir \<or> truthy image_embeddingdir then
        if truthy embedding_files then Inl (CellmapsCoEmbeddingError UseEitherNotBoth)
        else (case get_embedding_file_from_dirs exists ppi_embeddingdir of
                Inl e \<Rightarrow> Inl e
              | Inr ppi_embedding_file \<Rightarrow>
                  (case get_embedding_file_from_dirs exists image_embeddingdir of
                     Inl e \<Rightarrow> Inl e
                   | Inr image_embedding_file \<Rightarrow>
                       check_names embedding_files
                         (Some [ppi_embedding_file, image_embedding_file])
                         (if embedding_names = None then Some [''PPI'', ''image''] else Some [])))
      else check_names embedding_files embedding_files embedding_names)"

text \<open>The fields of an \<open>EmbeddingGenerator\<close> and its constructor.\<close>

record generator =
  dimensions :: int
  embedding_files :: "string list"
  embedding_names :: "string list"

definition EmbeddingGenerator_init ::
  "(string \<Rightarrow> bool) \<Rightarrow> int \<Rightarrow> string option \<Rightarrow> string option \<Rightarrow> string list option \<Rightarrow>
   string list option \<Rightarrow> error + generator" where
  "EmbeddingGenerator_init exists dims ppi_embeddingdir image_embeddingdir files names =
     (case get_embedding_files_and_names exists files ppi_embeddingdir image_embeddingdir names of
        Inl e \<Rightarrow> Inl e
      | Inr (fs, ns) \<Rightarrow>
          Inr \<lparr>dimensions = dims, embedding_files = fs, embedding_names = ns\<rparr>)"

section \<open>The host: files, built-ins and collaborators\<close>

text \<open>
  What the code reaches outside the package is a parameter of the model:
  \<^item> \<open>path_exists\<close>, \<open>isfile\<close>, \<open>isdir\<close>, \<open>abspath\<close>: \<open>os.path\<close> on the host's file system;
  \<^item> \<open>csv_rows p\<close>: the rows \<open>csv.reader(open(p, 'r'), delimiter='\t')\<close> delivers, header
    included, or \<open>None\<close> when the file cannot be opened;
  \<^item> \<open>can_write p\<close>: whether \<open>open(p, 'w')\<close> succeeds;
  \<^item> \<open>to_float\<close>: Python's \<open>float\<close> on a string, \<open>None\<close> where it raises \<open>ValueError\<close>;
    the type \<open>'f\<close> of floats stays abstract;
  \<^item> \<open>random_sample pop k\<close>: what \<open>random.sample\<close> draws when \<open>0 \<le> k \<le> len(pop)\<close>;
  \<^item> \<open>muse_fit_predict\<close>: \<open>muse_sc.muse_fit_predict\<close>, which trains the model and returns the
    latent vectors (its second result), or raises;
  \<^item> \<open>raises c\<close>: the exception the collaborator call \<open>c\<close> (logging, provenance, file
    system) ends with, if any.
\<close>

datatype call =
    Makedirs
  | SetupFilelogger
  | WriteTaskStartJson
  | UpdateProvenanceFields
  | RegisterRocrate
  | RegisterSoftware
  | OpenCoEmbeddingFile
  | WriteRow nat
  | RegisterDataset
  | RegisterComputation
  | WriteTaskFinishJson
  | SetupCmdLogging

text \<open>
  The hyper-parameters handed through to the fit: \<open>n_epochs\<close>, \<open>n_epochs_init\<close>,
  \<open>triplet_margin\<close>, \<open>k\<close>, \<open>dropout\<close>.
\<close>

type_synonym fit_params = "int \<times> int \<times> rat \<times> int \<times> rat"

record 'f host =
  path_exists :: "string \<Rightarrow> bool"
  isfile :: "string \<Rightarrow> bool"
  isdir :: "string \<Rightarrow> bool"
  abspath :: "string \<Rightarrow> string"
  csv_rows :: "string \<Rightarrow> string list list option"
  can_write :: "string \<Rightarrow> bool"
  to_float :: "string \<Rightarrow> 'f option"
  random_sample :: "nat list \<Rightarrow> nat \<Rightarrow> nat list"
  muse_fit_predict ::
    "string \<Rightarrow> 'f list list list \<Rightarrow> string list \<Rightarrow> string list \<Rightarrow> nat list \<Rightarrow> int \<Rightarrow>
     fit_params \<Rightarrow> error + 'f list list"
  raises :: "call \<Rightarrow> error option"

section \<open>Reading and aligning the embedding tables\<close>

text \<open>A list comprehension whose body can raise: the first failure ends it.\<close>

fun map_error :: "('a \<Rightarrow> error + 'b) \<Rightarrow> 'a list \<Rightarrow> error + 'b list" where
  "map_error f [] = Inr []"
| "map_error f (x # xs) =
     (case f x of
        Inl e \<Rightarrow> Inl e
      | Inr y \<Rightarrow> (case map_error f xs of Inl e \<Rightarrow> Inl e | Inr ys \<Rightarrow> Inr (y # ys)))"

text \<open>\<open>_get_embeddings\<close>: the rows of the file after the header row.\<close>

definition get_embeddings :: "'f host \<Rightarrow> string \<Rightarrow> error + string list list" where
  "get_embeddings host embedding_file =
     (case csv_rows host embedding_file of
        None \<Rightarrow> Inl OSError
      | Some all_rows \<Rightarrow> Inr (drop 1 all_rows))"

text \<open>\<open>_get_set_of_gene_names\<close>: \<open>entry[0]\<close> raises \<open>IndexError\<close> on an empty row.\<close>

fun gene_names_loop :: "string set \<Rightarrow> string list list \<Rightarrow> error + string set" where
  "gene_names_loop name_set [] = Inr name_set"
| "gene_names_loop name_set (entry # rest) =
     (case entry of
        [] \<Rightarrow> Inl IndexError
      | n # _ \<Rightarrow> gene_names_loop (insert n name_set) rest)"

definition get_set_of_gene_names :: "string list list \<Rightarrow> error + string set" where
  "get_set_of_gene_names embedding = gene_names_loop {} embedding"

text \<open>
  Lines 180 to 183 of \<open>MuseCoEmbeddingGenerator.get_next_embedding\<close>: each table is sorted
  in place by its first cell (a stable sort; the key \<open>x[0]\<close> raises \<open>IndexError\<close> on an
  empty row), then the log line reads \<open>self._embedding_names[index]\<close>. Strings compare
  as Python compares them, code point by code point.
\<close>

fun sort_embeddings :: "string list list list \<Rightarrow> string list \<Rightarrow> error + string list list list" where
  "sort_embeddings [] names = Inr []"
| "sort_embeddings (e # es) names =
     (if [] \<in> set e then Inl IndexError
      else (case names of
              [] \<Rightarrow> Inl IndexError
            | _ # names' \<Rightarrow>
                (case sort_embeddings es names' of
                   Inl err \<Rightarrow> Inl err
                 | Inr sorted_es \<Rightarrow> Inr (sort_key hd e # sorted_es))))"

text \<open>
  Line 186: the intersection of the first two name sets; \<open>embedding_name_sets[1]\<close>
  raises \<open>IndexError\<close> when there are fewer than two tables.
\<close>

definition intersect_first_two :: "string set list \<Rightarrow> error + string set" where
  "intersect_first_two embedding_name_sets =
     (case embedding_name_sets of
        s0 # s1 # _ \<Rightarrow> Inr (s0 \<inter> s1)
      | _ \<Rightarrow> Inl IndexError)"

text \<open>
  Line 196, for one table: the rows whose identifier is in the intersection, each turned
  into its vector \<open>[float(v) for v in xi[1:]]\<close>. The rows are non-empty here, since the
  sort has read \<open>x[0]\<close> of every one. \<open>np.array\<close> is taken as the nested list itself.
\<close>

definition modality_matrix :: "'f host \<Rightarrow> string set \<Rightarrow> string list list \<Rightarrow> error + 'f list list" where
  "modality_matrix host intersection_name_set e =
     map_error
       (\<lambda>xi. map_error (\<lambda>v. case to_float host v of None \<Rightarrow> Inl ValueError | Some x \<Rightarrow> Inr x)
                (drop 1 xi))
       (filter (\<lambda>xi. hd xi \<in> intersection_name_set) e)"

text \<open>
  Lines 179 to 196: the intersection, the canonical identifier list \<open>name_index\<close> and
  the matrices \<open>embedding_data\<close>, one per table.
\<close>

definition align ::
  "'f host \<Rightarrow> 'a generator_scheme \<Rightarrow> error + string set \<times> string list \<times> 'f list list list" where
  "align host self =
     (case map_error (get_embeddings host) (embedding_files self) of
        Inl e \<Rightarrow> Inl e
      | Inr unsorted \<Rightarrow>
     (case sort_embeddings unsorted (embedding_names self) of
        Inl e \<Rightarrow> Inl e
      | Inr embeddings \<Rightarrow>
     (case map_error get_set_of_gene_names embeddings of
        Inl e \<Rightarrow> Inl e
      | Inr embedding_name_sets \<Rightarrow>
     (case intersect_first_two embedding_name_sets of
        Inl e \<Rightarrow> Inl e
      | Inr intersection_name_set \<Rightarrow>
          (let name_index =
                 map hd (filter (\<lambda>x. hd x \<in> intersection_name_set) (embeddings ! 0))
           in case map_error (modality_matrix host intersection_name_set) embeddings of
                Inl e \<Rightarrow> Inl e
              | Inr embedding_data \<Rightarrow>
                  Inr (intersection_name_set, name_index, embedding_data))))))"

section \<open>MuseCoEmbeddingGenerator\<close>

record muse_generator = generator +
  muse_outdir :: "string option"
  k :: int
  triplet_margin :: rat
  dropout :: rat
  n_epochs :: int
  n_epochs_init :: int
  jackknife_percent :: rat

text \<open>
  \<open>int(x)\<close> truncates towards zero. The product \<open>jackknife_percent * len(name_index)\<close> is
  taken exactly, over the rationals.
\<close>

definition py_int :: "rat \<Rightarrow> int" where
  "py_int x = (if 0 \<le> x then \<lfloor>x\<rfloor> else \<lceil>x\<rceil>)"

text \<open>
  \<open>random.sample(population, k)\<close> raises \<open>ValueError\<close> when \<open>k\<close> is negative or larger
  than the population.
\<close>

definition py_random_sample :: "'f host \<Rightarrow> nat list \<Rightarrow> int \<Rightarrow> error + nat list" where
  "py_random_sample host population n =
     (if n < 0 \<or> int (length population) < n then Inl ValueError
      else Inr (random_sample host population (nat n)))"

text \<open>\<open>'\n'.join(lines)\<close>.\<close>

fun join_lines :: "string list \<Rightarrow> string" where
  "join_lines [] = []"
| "join_lines [x] = x"
| "join_lines (x # y # rest) = x @ [CHR 0x0A] @ join_lines (y # rest)"

text \<open>What a generator has done when its consumer has drained it.\<close>

datatype 'f cell = StrCell string | IntCell int | FloatCell 'f

record 'f outcome =
  side_file :: "(string \<times> string) option"
  rows :: "'f cell list list"
  raised :: "error option"

text \<open>
  Lines 201 to 203: the held-out identifiers are written to \<open><resultsdir>_test_genes.txt\<close>
  only when \<open>jackknife_percent > 0\<close>. The file is opened before the identifiers are
  looked up; a position outside \<open>name_index\<close> raises \<open>IndexError\<close>.
\<close>

definition write_test_genes ::
  "'f host \<Rightarrow> rat \<Rightarrow> string \<Rightarrow> string list \<Rightarrow> nat list \<Rightarrow> (string \<times> string) option \<times> error option" where
  "write_test_genes host percent resultsdir name_index test_subset =
     (if percent > 0 then
        (let path = resultsdir @ ''_test_genes.txt''
         in if \<not> can_write host path then (None, Some OSError)
            else if filter (\<lambda>i. \<not> i < length name_index) test_subset \<noteq> []
            then (Some (path, []), Some IndexError)
            else (Some (path, join_lines (map (\<lambda>i. name_index ! i) test_subset)), None))
      else (None, None))"

text \<open>
  Lines 217 to 220: one row per result vector, the identifier first;
  \<open>name_index[index]\<close> raises \<open>IndexError\<close> past the end of \<open>name_index\<close>.
\<close>

fun emit_rows :: "string list \<Rightarrow> 'f list list \<Rightarrow> 'f cell list list \<times> error option" where
  "emit_rows names [] = ([], None)"
| "emit_rows [] (embedding # es) = ([], Some IndexError)"
| "emit_rows (n # names) (embedding # es) =
     (case emit_rows names es of
        (rs, err) \<Rightarrow> ((StrCell n # map FloatCell embedding) # rs, err))"

definition muse_get_next_embedding :: "'f host \<Rightarrow> muse_generator \<Rightarrow> 'f outcome" where
  "muse_get_next_embedding host self =
     (case align host self of
        Inl e \<Rightarrow> \<lparr>side_file = None, rows = [], raised = Some e\<rparr>
      | Inr (intersection_name_set, name_index, embedding_data) \<Rightarrow>
     (case os_path_join (muse_outdir self) ''muse'' of
        Inl e \<Rightarrow> \<lparr>side_file = None, rows = [], raised = Some e\<rparr>
      | Inr resultsdir \<Rightarrow>
     (case py_random_sample host [0..<length name_index]
             (py_int (jackknife_percent self * of_nat (length name_index))) of
        Inl e \<Rightarrow> \<lparr>side_file = None, rows = [], raised = Some e\<rparr>
      | Inr test_subset \<Rightarrow>
     (case write_test_genes host (jackknife_percent self) resultsdir name_index test_subset of
        (side, Some e) \<Rightarrow> \<lparr>side_file = side, rows = [], raised = Some e\<rparr>
      | (side, None) \<Rightarrow>
     (case muse_fit_predict host resultsdir embedding_data (embedding_names self) name_index
             test_subset (dimensions self)
             (n_epochs self, n_epochs_init self, triplet_margin self, k self, dropout self) of
        Inl e \<Rightarrow> \<lparr>side_file = side, rows = [], raised = Some e\<rparr>
      | Inr res_embedings \<Rightarrow>
          (case emit_rows name_index res_embedings of
             (rs, err) \<Rightarrow> \<lparr>side_file = side, rows = rs, raised = err\<rparr>))))))"

section \<open>FakeCoEmbeddingGenerator\<close>

text \<open>
  The names bound at module level in \<open>runner.py\<close>. A name that is neither local to the
  function, nor one of these, nor a built-in raises \<open>NameError\<close> when it is read.
\<close>

definition runner_module_names :: "string list" where
  "runner_module_names =
     [''os'', ''csv'', ''random'', ''logging'', ''time'', ''date'', ''pd'', ''np'', ''dill'',
      ''sys'', ''tqdm'', ''constants'', ''logutils'', ''ProvenanceUtil'',
      ''cellmaps_coembedding'', ''muse'', ''CellmapsCoEmbeddingError'', ''logger'',
      ''EmbeddingGenerator'', ''MuseCoEmbeddingGenerator'', ''FakeCoEmbeddingGenerator'',
      ''CellmapsCoEmbedder'']"

definition read_name :: "string list \<Rightarrow> string \<Rightarrow> error + unit" where
  "read_name local_names n =
     (if n \<in> set local_names \<or> n \<in> set runner_module_names then Inr () else Inl NameError)"

text \<open>
  \<open>FakeCoEmbeddingGenerator.get_next_embedding\<close>. Line 246 is
  \<open>modality_embeddings = [self._get_embeddings(x) in self._embedding_files]\<close>: a list
  display holding one membership test, not a comprehension, so \<open>x\<close> is read as a
  global name. Were it bound, the list would hold one \<open>bool\<close>, and \<open>embeddings.sort\<close>
  on line 249 would raise \<open>AttributeError\<close>.
\<close>

definition fake_get_next_embedding :: "'f host \<Rightarrow> generator \<Rightarrow> 'f outcome" where
  "fake_get_next_embedding host self =
     (case read_name [''self''] ''x'' of
        Inl e \<Rightarrow> \<lparr>side_file = None, rows = [], raised = Some e\<rparr>
      | Inr _ \<Rightarrow> \<lparr>side_file = None, rows = [], raised = Some AttributeError\<rparr>)"

section \<open>CellmapsCoEmbedder\<close>

text \<open>The two generator classes of \<open>runner.py\<close> and the methods the run calls on them.\<close>

datatype gen = MuseGen muse_generator | FakeGen generator

fun get_dimensions :: "gen \<Rightarrow> int" where
  "get_dimensions (MuseGen g) = dimensions g"
| "get_dimensions (FakeGen g) = dimensions g"

fun get_embedding_files :: "gen \<Rightarrow> string list" where
  "get_embedding_files (MuseGen g) = embedding_files g"
| "get_embedding_files (FakeGen g) = embedding_files g"

fun get_next_embedding :: "'f host \<Rightarrow> gen \<Rightarrow> 'f outcome" where
  "get_next_embedding host (MuseGen g) = muse_get_next_embedding host g"
| "get_next_embedding host (FakeGen g) = fake_get_next_embedding host g"

text \<open>\<open>os.path.dirname\<close> (posixpath).\<close>

definition dirname :: "string \<Rightarrow> string" where
  "dirname p =
     (let head = rev (dropWhile (\<lambda>c. c \<noteq> CHR ''/'') (rev p))
      in if head \<noteq> [] \<and> filter (\<lambda>c. c \<noteq> CHR ''/'') head \<noteq> []
         then rev (dropWhile (\<lambda>c. c = CHR ''/'') (rev head))
         else head)"

definition get_embedding_dirs :: "'f host \<Rightarrow> string list \<Rightarrow> string list" where
  "get_embedding_dirs host embeddings =
     map (\<lambda>embed. if isfile host embed then dirname embed else embed) embeddings"

record coembedder =
  outdir :: "string option"
  embedding_generator :: gen
  inputdirs :: "string list option"
  skip_logging :: bool

definition CellmapsCoEmbedder_init ::
  "'f host \<Rightarrow> string option \<Rightarrow> gen \<Rightarrow> bool option \<Rightarrow> error + coembedder" where
  "CellmapsCoEmbedder_init host od g skip =
     (case od of
        None \<Rightarrow> Inl (CellmapsCoEmbeddingError OutdirIsNone)
      | Some d \<Rightarrow>
          Inr \<lparr>outdir = Some (abspath host d),
               embedding_generator = g,
               inputdirs = Some (get_embedding_dirs host (get_embedding_files g)),
               skip_logging = (case skip of None \<Rightarrow> False | Some b \<Rightarrow> b)\<rparr>)"

text \<open>
  What a run leaves behind, and the local variable \<open>exitcode\<close> of \<open>run\<close>:
  \<^item> \<open>task_start_records\<close>: how often \<open>logutils.write_task_start_json\<close> was called;
  \<^item> \<open>task_finish_records\<close>: the \<open>status\<close> of each call of
    \<open>logutils.write_task_finish_json\<close>, in order;
  \<^item> \<open>coembedding_file\<close>: the path and the rows of the merged table, once it is opened;
  \<^item> \<open>test_genes_file\<close>: the path and the text of the held-out identifiers file.
\<close>

record 'f state =
  exitcode :: int
  task_start_records :: nat
  task_finish_records :: "int list"
  coembedding_file :: "(string \<times> 'f cell list list) option"
  test_genes_file :: "(string \<times> string) option"

text \<open>
  A statement is a step on the state that may raise; a block runs its statements in
  order and stops at the first exception.
\<close>

type_synonym 'f step = "'f state \<Rightarrow> error option \<times> 'f state"

fun block :: "'f step list \<Rightarrow> 'f step" where
  "block [] s = (None, s)"
| "block (stmt # stmts) s =
     (case stmt s of
        (Some e, s') \<Rightarrow> (Some e, s')
      | (None, s') \<Rightarrow> block stmts s')"

definition external :: "'f host \<Rightarrow> call \<Rightarrow> 'f step" where
  "external host c s = (raises host c, s)"

definition check_outdir :: "coembedder \<Rightarrow> 'f step" where
  "check_outdir self s =
     (case outdir self of
        None \<Rightarrow> (Some (CellmapsCoEmbeddingError OutdirMustBeSet), s)
      | Some _ \<Rightarrow> (None, s))"

definition make_outdir :: "'f host \<Rightarrow> coembedder \<Rightarrow> 'f step" where
  "make_outdir host self s =
     (case outdir self of
        None \<Rightarrow> (Some TypeError, s)
      | Some d \<Rightarrow> if \<not> isdir host d then (raises host Makedirs, s) else (None, s))"

definition setup_filelogger :: "'f host \<Rightarrow> coembedder \<Rightarrow> 'f step" where
  "setup_filelogger host self s =
     (if skip_logging self = False then (raises host SetupFilelogger, s) else (None, s))"

definition write_task_start_json :: "'f host \<Rightarrow> 'f step" where
  "write_task_start_json host s =
     (raises host WriteTaskStartJson, s\<lparr>task_start_records := Suc (task_start_records s)\<rparr>)"

definition check_inputdirs :: "coembedder \<Rightarrow> 'f step" where
  "check_inputdirs self s =
     (case inputdirs self of
        None \<Rightarrow> (Some (CellmapsCoEmbeddingError NoEmbeddingsProvided), s)
      | Some _ \<Rightarrow> (None, s))"

text \<open>\<open>_create_rocrate\<close> rewraps \<open>TypeError\<close> and \<open>KeyError\<close>.\<close>

definition create_rocrate :: "'f host \<Rightarrow> 'f step" where
  "create_rocrate host s =
     (case raises host RegisterRocrate of
        Some TypeError \<Rightarrow> (Some (CellmapsCoEmbeddingError InvalidProvenance), s)
      | Some KeyError \<Rightarrow> (Some (CellmapsCoEmbeddingError KeyMissingInProvenance), s)
      | r \<Rightarrow> (r, s))"

text \<open>
  The write loop of line 503 and 504: the \<open>i\<close>-th \<open>writerow\<close> of the file writes its row
  unless it raises; \<open>acc\<close> holds the rows written so far.
\<close>

fun write_rows ::
  "(call \<Rightarrow> error option) \<Rightarrow> nat \<Rightarrow> 'c list list \<Rightarrow> 'c list list \<Rightarrow> error option \<times> 'c list list" where
  "write_rows fails i acc [] = (None, acc)"
| "write_rows fails i acc (row # rest) =
     (case fails (WriteRow i) of
        Some e \<Rightarrow> (Some e, acc)
      | None \<Rightarrow> write_rows fails (Suc i) (acc @ [row]) rest)"

text \<open>
  Lines 498 to 504. The file is opened and the header written before the generator is
  asked for its first row; the generator does all its work, side file included, when
  that first row is asked for, and raises, if it does, after its last row.
\<close>

definition write_coembedding :: "'f host \<Rightarrow> coembedder \<Rightarrow> 'f step" where
  "write_coembedding host self s =
     (case os_path_join (outdir self) CO_EMBEDDING_FILE of
        Inl e \<Rightarrow> (Some e, s)
      | Inr path \<Rightarrow>
     (case raises host OpenCoEmbeddingFile of
        Some e \<Rightarrow> (Some e, s)
      | None \<Rightarrow>
          (let header_line = StrCell [] # map IntCell [1..get_dimensions (embedding_generator self) - 1]
           in case write_rows (raises host) 0 [] [header_line] of
                (Some e, written) \<Rightarrow> (Some e, s\<lparr>coembedding_file := Some (path, written)\<rparr>)
              | (None, written) \<Rightarrow>
                  (let out = get_next_embedding host (embedding_generator self);
                       s1 = (case side_file out of
                               None \<Rightarrow> s
                             | Some f \<Rightarrow> s\<lparr>test_genes_file := Some f\<rparr>)
                   in case write_rows (raises host) 1 written (rows out) of
                        (Some e, written') \<Rightarrow>
                          (Some e, s1\<lparr>coembedding_file := Some (path, written')\<rparr>)
                      | (None, written') \<Rightarrow>
                          (raised out, s1\<lparr>coembedding_file := Some (path, written')\<rparr>)))))"

definition set_exitcode :: "int \<Rightarrow> 'f step" where
  "set_exitcode c s = (None, s\<lparr>exitcode := c\<rparr>)"

text \<open>The body of the \<open>try\<close> of \<open>CellmapsCoEmbedder.run\<close>.\<close>

definition run_try :: "'f host \<Rightarrow> coembedder \<Rightarrow> 'f step" where
  "run_try host self =
     block [check_outdir self,
            make_outdir host self,
            setup_filelogger host self,
            write_task_start_json host,
            check_inputdirs self,
            external host UpdateProvenanceFields,
            create_rocrate host,
            external host RegisterSoftware,
            write_coembedding host self,
            external host RegisterDataset,
            external host RegisterComputation,
            set_exitcode 0]"

text \<open>
  \<open>CellmapsCoEmbedder.run\<close>: \<open>exitcode = 99\<close>, the \<open>try\<close>, and the \<open>finally\<close> that calls
  \<open>write_task_finish_json\<close> with \<open>status=exitcode\<close>. An exception of the \<open>finally\<close>
  replaces the one of the \<open>try\<close>.
\<close>

definition run :: "'f host \<Rightarrow> coembedder \<Rightarrow> 'f state \<Rightarrow> (error + int) \<times> 'f state" where
  "run host self s =
     (case run_try host self (s\<lparr>exitcode := 99\<rparr>) of
        (err, s1) \<Rightarrow>
          (let s2 = s1\<lparr>task_finish_records := task_finish_records s1 @ [exitcode s1]\<rparr>
           in case raises host WriteTaskFinishJson of
                Some e \<Rightarrow> (Inl e, s2)
              | None \<Rightarrow> (case err of Some e \<Rightarrow> (Inl e, s2) | None \<Rightarrow> (Inr (exitcode s2), s2))))"

section \<open>The command line entry point\<close>

datatype algorithm = auto | muse

record theargs =
  arg_outdir :: string
  arg_embeddings :: "string list option"
  arg_embedding_names :: "string list option"
  arg_algorithm :: algorithm
  arg_ppi_embeddingdir :: "string option"
  arg_image_embeddingdir :: "string option"
  arg_latent_dimension :: int
  arg_n_epochs_init :: int
  arg_n_epochs :: int
  arg_jackknife_percent :: rat
  arg_fake_embedding :: bool
  arg_skip_logging :: bool

text \<open>
  A call with keyword arguments raises \<open>TypeError\<close> when a keyword is not a parameter
  of the callee (none of the constructors takes \<open>**kwargs\<close>).
\<close>

definition accepts_keywords :: "string list \<Rightarrow> string list \<Rightarrow> error + unit" where
  "accepts_keywords parameters keywords =
     (if filter (\<lambda>kw. kw \<notin> set parameters) keywords = [] then Inr () else Inl TypeError)"

definition FakeCoEmbeddingGenerator_parameters :: "string list" where
  "FakeCoEmbeddingGenerator_parameters =
     [''dimensions'', ''ppi_embeddingdir'', ''image_embeddingdir'', ''embedding_files'',
      ''embedding_names'']"

definition MuseCoEmbeddingGenerator_parameters :: "string list" where
  "MuseCoEmbeddingGenerator_parameters =
     [''dimensions'', ''k'', ''triplet_margin'', ''dropout'', ''n_epochs'', ''n_epochs_init'',
      ''outdir'', ''embedding_files'', ''ppi_embeddingdir'', ''image_embeddingdir'',
      ''embedding_names'', ''jackknife_percent'']"

definition CellmapsCoEmbedder_parameters :: "string list" where
  "CellmapsCoEmbedder_parameters =
     [''outdir'', ''embedding_generator'', ''name'', ''organization_name'', ''project_name'',
      ''provenance_utils'', ''skip_logging'', ''input_data_dict'']"

text \<open>The constructors of the two generator classes.\<close>

definition FakeCoEmbeddingGenerator_init ::
  "(string \<Rightarrow> bool) \<Rightarrow> int \<Rightarrow> string option \<Rightarrow> string option \<Rightarrow> string list option \<Rightarrow>
   string list option \<Rightarrow> error + gen" where
  "FakeCoEmbeddingGenerator_init exists dims ppi_dir image_dir files names =
     (case EmbeddingGenerator_init exists dims ppi_dir image_dir files names of
        Inl e \<Rightarrow> Inl e
      | Inr g \<Rightarrow> Inr (FakeGen g))"

definition MuseCoEmbeddingGenerator_init ::
  "(string \<Rightarrow> bool) \<Rightarrow> int \<Rightarrow> fit_params \<Rightarrow> string option \<Rightarrow> string list option \<Rightarrow>
   string option \<Rightarrow> string option \<Rightarrow> string list option \<Rightarrow> rat \<Rightarrow> error + gen" where
  "MuseCoEmbeddingGenerator_init exists dims params od files ppi_dir image_dir names percent =
     (case EmbeddingGenerator_init exists dims ppi_dir image_dir files names of
        Inl e \<Rightarrow> Inl e
      | Inr g \<Rightarrow>
          (case params of
             (epochs, epochs_init, margin, neighbours, drop_rate) \<Rightarrow>
               Inr (MuseGen
                 \<lparr>dimensions = dimensions g,
                  embedding_files = embedding_files g,
                  embedding_names = embedding_names g,
                  muse_outdir = od,
                  k = neighbours,
                  triplet_margin = margin,
                  dropout = drop_rate,
                  n_epochs = epochs,
                  n_epochs_init = epochs_init,
                  jackknife_percent = percent\<rparr>)))"

text \<open>
  Lines 143 to 168 of \<open>main\<close>. Each constructor is called with the keyword
  \<open>embeddings\<close>, so \<open>embedding_files\<close> keeps its default \<open>None\<close>; the defaults of the
  MUSE constructor are \<open>k=10\<close>, \<open>triplet_margin=0.1\<close>, \<open>dropout=0.25\<close>.
  \<open>AutoCoEmbeddingGenerator\<close> is imported from \<open>runner\<close>, which does not define it.
\<close>

definition make_generator :: "'f host \<Rightarrow> theargs \<Rightarrow> error + gen" where
  "make_generator host a =
     (if arg_fake_embedding a then
        (case accepts_keywords FakeCoEmbeddingGenerator_parameters
                [''dimensions'', ''ppi_embeddingdir'', ''image_embeddingdir'', ''embeddings'',
                 ''embedding_names''] of
           Inl e \<Rightarrow> Inl e
         | Inr _ \<Rightarrow>
             FakeCoEmbeddingGenerator_init (path_exists host) (arg_latent_dimension a)
               (arg_ppi_embeddingdir a) (arg_image_embeddingdir a) None (arg_embedding_names a))
      else if arg_algorithm a = muse then
        (case accepts_keywords MuseCoEmbeddingGenerator_parameters
                [''dimensions'', ''ppi_embeddingdir'', ''image_embeddingdir'', ''n_epochs'',
                 ''n_epochs_init'', ''jackknife_percent'', ''outdir'', ''embeddings'',
                 ''embedding_names''] of
           Inl e \<Rightarrow> Inl e
         | Inr _ \<Rightarrow>
             MuseCoEmbeddingGenerator_init (path_exists host) (arg_latent_dimension a)
               (arg_n_epochs a, arg_n_epochs_init a, 1 / 10, 10, 1 / 4)
               (Some (abspath host (arg_outdir a))) None
               (arg_ppi_embeddingdir a) (arg_image_embeddingdir a) (arg_embedding_names a)
               (arg_jackknife_percent a))
      else Inl ImportError)"

text \<open>
  \<open>gen.get_embedding_inputdirs()\<close> on line 170: neither generator class nor their base
  class has such a method.
\<close>

definition get_embedding_inputdirs :: "gen \<Rightarrow> error + string list" where
  "get_embedding_inputdirs g = Inl AttributeError"

text \<open>The body of the \<open>try\<close> of \<open>main\<close>, lines 142 to 178.\<close>

definition main_try :: "'f host \<Rightarrow> theargs \<Rightarrow> 'f state \<Rightarrow> (error + int) \<times> 'f state" where
  "main_try host a s =
     (case raises host SetupCmdLogging of
        Some e \<Rightarrow> (Inl e, s)
      | None \<Rightarrow>
     (case make_generator host a of
        Inl e \<Rightarrow> (Inl e, s)
      | Inr g \<Rightarrow>
     (case get_embedding_inputdirs g of
        Inl e \<Rightarrow> (Inl e, s)
      | Inr dirs \<Rightarrow>
     (case accepts_keywords CellmapsCoEmbedder_parameters
             [''outdir'', ''inputdirs'', ''embedding_generator'', ''name'', ''organization_name'',
              ''project_name'', ''skip_logging'', ''input_data_dict''] of
        Inl e \<Rightarrow> (Inl e, s)
      | Inr _ \<Rightarrow>
     (case CellmapsCoEmbedder_init host (Some (arg_outdir a)) g (Some (arg_skip_logging a)) of
        Inl e \<Rightarrow> (Inl e, s)
      | Inr embedder \<Rightarrow> run host embedder s)))))"

text \<open>\<open>except Exception as e: ... return 2\<close>.\<close>

definition except_Exception :: "(error + int) \<times> 'f state \<Rightarrow> (error + int) \<times> 'f state" where
  "except_Exception r =
     (case r of
        (Inl e, s) \<Rightarrow> (Inr 2, s)
      | (Inr code, s) \<Rightarrow> (Inr code, s))"

text \<open>
  \<open>main\<close>, from the parsed arguments on: the three checks of lines 130 to 139 raise
  outside the \<open>try\<close>.
\<close>

definition main :: "'f host \<Rightarrow> theargs \<Rightarrow> 'f state \<Rightarrow> (error + int) \<times> 'f state" where
  "main host a s =
     (if (truthy (arg_ppi_embeddingdir a) \<or> truthy (arg_image_embeddingdir a))
         \<and> truthy (arg_embeddings a)
      then (Inl (CellmapsCoEmbeddingError CmdUseEitherNotBoth), s)
      else if truthy (arg_embeddings a) \<and> length (the (arg_embeddings a)) > 2
              \<and> arg_algorithm a = muse
      then (Inl (CellmapsCoEmbeddingError OnlyTwoEmbeddingsForMuse), s)
      else if \<not> (truthy (arg_ppi_embeddingdir a) \<and> truthy (arg_image_embeddingdir a))
              \<and> \<not> truthy (arg_embeddings a)
      then (Inl (CellmapsCoEmbeddingError DirsOrEmbeddingsRequired), s)
      else except_Exception (main_try host a s))"

section \<open>What the collaborators promise\<close>


text \<open>
  Modelled from the spec: \<open>muse_sc.muse_fit_predict\<close> is not among the sources. Section 4.2
  gives its result: "for each entity in the canonical order, a fused latent vector of
  dimension D". So a fit that returns hands back one vector per identifier of
  \<open>name_index\<close>, each of the requested length \<open>latent_dim\<close>.
\<close>

definition fit_returns_latent_vectors :: "'f host \<Rightarrow> bool" where
  "fit_returns_latent_vectors host =
     (\<forall>resultsdir modality_data modality_names name_index test_subset latent_dim params res.
        muse_fit_predict host resultsdir modality_data modality_names name_index test_subset
          latent_dim params = Inr res
        \<longrightarrow> length res = length name_index \<and> (\<forall>v \<in> set res. int (length v) = latent_dim))"

section \<open>A worked example\<close>

text \<open>
  Two embedding tables with the identifiers \<open>gene1, gene2\<close> and \<open>gene2, gene3\<close> (the
  scenario of \<open>tests/test_fakeembeddinggenerator.py\<close>), a third one with \<open>gene3\<close> only, a
  fit that returns zero vectors of the requested length, and a sampler that takes the
  first \<open>n\<close> positions.
\<close>

definition example_tables :: "(string \<times> string list list) list" where
  "example_tables =
     [(''/in/ppi.tsv'',
         [['''', ''1'', ''2''], [''gene2'', ''0.3'', ''0.4''], [''gene1'', ''0.1'', ''0.2'']]),
      (''/in/image.tsv'',
         [['''', ''1'', ''2''], [''gene2'', ''0.5'', ''0.6''], [''gene3'', ''0.7'', ''0.8'']]),
      (''/in/third.tsv'',
         [['''', ''1''], [''gene3'', ''0.9'']])]"

definition example_floats :: "(string \<times> rat) list" where
  "example_floats =
     [(''0.1'', 1 / 10), (''0.2'', 2 / 10), (''0.3'', 3 / 10), (''0.4'', 4 / 10),
      (''0.5'', 5 / 10), (''0.6'', 6 / 10), (''0.7'', 7 / 10), (''0.8'', 8 / 10),
      (''0.9'', 9 / 10)]"

definition example_fit ::
  "string \<Rightarrow> rat list list list \<Rightarrow> string list \<Rightarrow> string list \<Rightarrow> nat list \<Rightarrow> int \<Rightarrow>
   fit_params \<Rightarrow> error + rat list list" where
  "example_fit resultsdir modality_data modality_names name_index test_subset latent_dim params =
     (if latent_dim < 0 then Inl ValueError
      else Inr (map (\<lambda>n. replicate (nat latent_dim) 0) name_index))"

definition example_host :: "rat host" where
  "example_host =
     \<lparr>path_exists = (\<lambda>p. p \<in> set (map fst example_tables)),
      isfile = (\<lambda>p. p \<in> set (map fst example_tables)),
      isdir = (\<lambda>p. p = ''/in'' \<or> p = ''/out''),
      abspath = (\<lambda>p. p),
      csv_rows = map_of example_tables,
      can_write = (\<lambda>p. True),
      to_float = map_of example_floats,
      random_sample = (\<lambda>population n. take n population),
      muse_fit_predict = example_fit,
      raises = (\<lambda>c. None)\<rparr>"

definition example_muse :: muse_generator where
  "example_muse =
     \<lparr>dimensions = 3,
      embedding_files = [''/in/ppi.tsv'', ''/in/image.tsv''],
      embedding_names = [''PPI'', ''image''],
      muse_outdir = Some ''/out'',
      k = 10,
      triplet_margin = 1 / 10,
      dropout = 1 / 4,
      n_epochs = 500,
      n_epochs_init = 200,
      jackknife_percent = 0\<rparr>"


text \<open>
  The generator of the test: \<open>FakeCoEmbeddingGenerator(dimensions=128, ...)\<close> over the two
  tables.
\<close>

definition example_fake :: generator where
  "example_fake =
     \<lparr>dimensions = 128,
      embedding_files = [''/in/ppi.tsv'', ''/in/image.tsv''],
      embedding_names = [''PPI'', ''image'']\<rparr>"

definition example_state :: "rat state" where
  "example_state =
     \<lparr>exitcode = 0,
      task_start_records = 0,
      task_finish_records = [],
      coembedding_file = None,
      test_genes_file = None\<rparr>"

definition example_embedder :: "gen \<Rightarrow> coembedder" where
  "example_embedder g =
     \<lparr>outdir = Some ''/out'',
      embedding_generator = g,
      inputdirs = Some [''/in'', ''/in''],
      skip_logging = True\<rparr>"


section \<open>Notions for stating the claims\<close>





text \<open>The rows \<open>get_next_embedding\<close> makes of identifiers and latent vectors.\<close>

definition rows_of :: "string list \<Rightarrow> 'f list list \<Rightarrow> 'f cell list list" where
  "rows_of names vectors = map (\<lambda>(n, v). StrCell n # map FloatCell v) (zip names vectors)"

text \<open>
  The shape of the merged table for latent dimension \<open>D\<close>: a header of an empty cell and
  the labels 1 to \<open>D - 1\<close>, and data rows of \<open>D + 1\<close> cells.
\<close>

definition table_shape :: "int \<Rightarrow> (string \<times> 'f cell list list) option \<Rightarrow> bool" where
  "table_shape D file =
     (case file of
        None \<Rightarrow> True
      | Some (path, table) \<Rightarrow>
          (table \<noteq> [] \<longrightarrow> hd table = StrCell [] # map IntCell [1..D - 1])
          \<and> (\<forall>row \<in> set (drop 1 table). int (length row) = D + 1))"

section \<open>Notions for the proofs\<close>


text \<open>The statements of the \<open>try\<close> of \<open>run\<close> before \<open>exitcode = 0\<close>.\<close>

definition run_statements :: "'f host \<Rightarrow> coembedder \<Rightarrow> 'f step list" where
  "run_statements host self =
     [check_outdir self,
      make_outdir host self,
      setup_filelogger host self,
      write_task_start_json host,
      check_inputdirs self,
      external host UpdateProvenanceFields,
      create_rocrate host,
      external host RegisterSoftware,
      write_coembedding host self,
      external host RegisterDataset,
      external host RegisterComputation]"

section \<open>Locating files: properties\<close>

lemma get_embedding_file_from_dirs_None:
  "get_embedding_file_from_dirs exists None = Inl TypeError"
  by (simp add: get_embedding_file_from_dirs_def os_path_join_def)

lemma get_embedding_file_from_dirs_cases:
  "get_embedding_file_from_dirs exists (Some d) = Inr (path_join d PPI_EMBEDDING_FILE)
   \<or> get_embedding_file_from_dirs exists (Some d) = Inr (path_join d IMAGE_EMBEDDING_FILE)
   \<or> get_embedding_file_from_dirs exists (Some d)
       = Inl (CellmapsCoEmbeddingError (EmbeddingFileNotFound d))"
  by (simp add: get_embedding_file_from_dirs_def os_path_join_def)

text \<open>
  Claim C4. A directory in which neither \<open>ppi_emd.tsv\<close> nor \<open>image_emd.tsv\<close> exists
  makes \<open>_get_embedding_file_from_dirs\<close> raise the package's error
  "Embedding file not found in <directory>" (the specification's ModalityFileError).
\<close>

theorem missing_embedding_file_raises:
  assumes "\<not> exists (path_join d PPI_EMBEDDING_FILE)"
    and "\<not> exists (path_join d IMAGE_EMBEDDING_FILE)"
  shows "get_embedding_file_from_dirs exists (Some d)
         = Inl (CellmapsCoEmbeddingError (EmbeddingFileNotFound d))"
  using assms by (simp add: get_embedding_file_from_dirs_def os_path_join_def)

theorem missing_embedding_file_raises_witness:
  "\<not> (\<lambda>p. p = ''/data/other.tsv'') (path_join ''/data'' PPI_EMBEDDING_FILE)
   \<and> \<not> (\<lambda>p. p = ''/data/other.tsv'') (path_join ''/data'' IMAGE_EMBEDDING_FILE)
   \<and> get_embedding_file_from_dirs (\<lambda>p. p = ''/data/other.tsv'') (Some ''/data'')
       = Inl (CellmapsCoEmbeddingError (EmbeddingFileNotFound ''/data''))"
proof -
  have a: "\<not> (\<lambda>p. p = ''/data/other.tsv'') (path_join ''/data'' PPI_EMBEDDING_FILE)"
    by (simp add: path_join_def PPI_EMBEDDING_FILE_def)
  have b: "\<not> (\<lambda>p. p = ''/data/other.tsv'') (path_join ''/data'' IMAGE_EMBEDDING_FILE)"
    by (simp add: path_join_def IMAGE_EMBEDDING_FILE_def)
  from missing_embedding_file_raises [of "\<lambda>p. p = ''/data/other.tsv''" "''/data''", OF a b] a b
  show ?thesis by blast
qed

section \<open>Constructing a generator: properties\<close>

lemma EmbeddingGenerator_init_Inl:
  "get_embedding_files_and_names exists files ppi_dir image_dir names = Inl e \<Longrightarrow>
   EmbeddingGenerator_init exists dims ppi_dir image_dir files names = Inl e"
  by (simp add: EmbeddingGenerator_init_def)

lemma FakeCoEmbeddingGenerator_init_Inl:
  "get_embedding_files_and_names exists files ppi_dir image_dir names = Inl e \<Longrightarrow>
   FakeCoEmbeddingGenerator_init exists dims ppi_dir image_dir files names = Inl e"
  by (simp add: FakeCoEmbeddingGenerator_init_def EmbeddingGenerator_init_def)

lemma MuseCoEmbeddingGenerator_init_Inl:
  "get_embedding_files_and_names exists files ppi_dir image_dir names = Inl e \<Longrightarrow>
   MuseCoEmbeddingGenerator_init exists dims params od files ppi_dir image_dir names percent = Inl e"
  by (simp add: MuseCoEmbeddingGenerator_init_def EmbeddingGenerator_init_def)

lemmas init_Inl =
  EmbeddingGenerator_init_Inl FakeCoEmbeddingGenerator_init_Inl MuseCoEmbeddingGenerator_init_Inl

lemma get_embedding_file_from_dirs_found:
  assumes "exists (path_join d PPI_EMBEDDING_FILE) \<or> exists (path_join d IMAGE_EMBEDDING_FILE)"
  shows "\<exists>f. get_embedding_file_from_dirs exists (Some d) = Inr f"
  using assms by (auto simp: get_embedding_file_from_dirs_def os_path_join_def)

lemma files_and_names_mismatch:
  assumes "(\<not> truthy ppi_dir \<and> \<not> truthy image_dir \<and> files = Some fs \<and> length ns \<noteq> length fs)
         \<or> (ppi_dir = Some p \<and> image_dir = Some i \<and> (p \<noteq> [] \<or> i \<noteq> []) \<and> \<not> truthy files
             \<and> (exists (path_join p PPI_EMBEDDING_FILE) \<or> exists (path_join p IMAGE_EMBEDDING_FILE))
             \<and> (exists (path_join i PPI_EMBEDDING_FILE) \<or> exists (path_join i IMAGE_EMBEDDING_FILE))
             \<and> length ns \<noteq> 2)"
  shows "get_embedding_files_and_names exists files ppi_dir image_dir (Some ns)
           = Inl (CellmapsCoEmbeddingError NamesDoNotMatch)"
proof -
  from assms consider
      (explicit) "\<not> truthy ppi_dir" "\<not> truthy image_dir" "files = Some fs" "length ns \<noteq> length fs"
    | (directories) "ppi_dir = Some p" "image_dir = Some i" "p \<noteq> [] \<or> i \<noteq> []" "\<not> truthy files"
        "exists (path_join p PPI_EMBEDDING_FILE) \<or> exists (path_join p IMAGE_EMBEDDING_FILE)"
        "exists (path_join i PPI_EMBEDDING_FILE) \<or> exists (path_join i IMAGE_EMBEDDING_FILE)"
        "length ns \<noteq> 2"
    by blast
  then show ?thesis
  proof cases
    case explicit
    then show ?thesis
      by (simp add: get_embedding_files_and_names_def check_names_def)
  next
    case directories
    note dirs = directories(1,2,3) and files = directories(4) and fp = directories(5)
      and fi = directories(6) and ns = directories(7)
  from get_embedding_file_from_dirs_found [OF fp] obtain a
    where a: "get_embedding_file_from_dirs exists (Some p) = Inr a" ..
  from get_embedding_file_from_dirs_found [OF fi] obtain b
    where b: "get_embedding_file_from_dirs exists (Some i) = Inr b" ..
  from dirs(3) have t: "truthy (Some p) \<or> truthy (Some i)"
    by (simp add: truthy_def)
    show ?thesis
      using t files ns
      by (simp add: get_embedding_files_and_names_def dirs(1,2) a b check_names_def)
  qed
qed

lemma files_and_names_both_directories:
  assumes "p \<noteq> [] \<or> i \<noteq> []"
  shows "\<exists>m. get_embedding_files_and_names exists files (Some p) (Some i) (Some ns)
               = Inl (CellmapsCoEmbeddingError m)
             \<and> (\<not> truthy files
                 \<and> (exists (path_join p PPI_EMBEDDING_FILE) \<or> exists (path_join p IMAGE_EMBEDDING_FILE))
                 \<and> (exists (path_join i PPI_EMBEDDING_FILE) \<or> exists (path_join i IMAGE_EMBEDDING_FILE))
                 \<longrightarrow> m = NamesDoNotMatch)"
proof -
  from assms have t: "truthy (Some p) \<or> truthy (Some i)"
    by (simp add: truthy_def)
  show ?thesis
  proof (cases "truthy files")
    case True
    with t show ?thesis
      by (simp add: get_embedding_files_and_names_def)
  next
    case False
    note get_embedding_file_from_dirs_cases [of exists p]
    then consider
        (nf) "get_embedding_file_from_dirs exists (Some p)
                = Inl (CellmapsCoEmbeddingError (EmbeddingFileNotFound p))"
             "\<not> (exists (path_join p PPI_EMBEDDING_FILE) \<or> exists (path_join p IMAGE_EMBEDDING_FILE))"
      | (found) a where "get_embedding_file_from_dirs exists (Some p) = Inr a"
      by (auto simp: get_embedding_file_from_dirs_def os_path_join_def split: if_splits)
    then show ?thesis
    proof cases
      case nf
      with t False show ?thesis
        by (simp add: get_embedding_files_and_names_def)
    next
      case found
      note get_embedding_file_from_dirs_cases [of exists i]
      then consider
          (nf2) "get_embedding_file_from_dirs exists (Some i)
                  = Inl (CellmapsCoEmbeddingError (EmbeddingFileNotFound i))"
               "\<not> (exists (path_join i PPI_EMBEDDING_FILE) \<or> exists (path_join i IMAGE_EMBEDDING_FILE))"
        | (found2) b where "get_embedding_file_from_dirs exists (Some i) = Inr b"
        by (auto simp: get_embedding_file_from_dirs_def os_path_join_def split: if_splits)
      then show ?thesis
      proof cases
        case nf2
        with t False found show ?thesis
          by (simp add: get_embedding_files_and_names_def)
      next
        case found2
        with t False found show ?thesis
          by (simp add: get_embedding_files_and_names_def check_names_def)
      qed
    qed
  qed
qed


lemma files_and_names_single_directory:
  assumes "(ppi_dir = Some d \<and> image_dir = None) \<or> (ppi_dir = None \<and> image_dir = Some d)"
  shows "get_embedding_files_and_names exists None ppi_dir image_dir names = Inl TypeError
         \<or> get_embedding_files_and_names exists None ppi_dir image_dir names
             = Inl (CellmapsCoEmbeddingError (EmbeddingFileNotFound d))"
  using assms get_embedding_file_from_dirs_cases [of exists d]
  by (auto simp: get_embedding_files_and_names_def truthy_def check_names_def
        get_embedding_file_from_dirs_None split: sum.splits option.splits)

lemma main_state_unchanged: "snd (main host a s) = s"
  by (simp add: main_def main_try_def except_Exception_def get_embedding_inputdirs_def
        split: option.splits sum.splits)

text \<open>
  Claim C10. When both directory arguments are given (at least one of them a non-empty
  string) together with a list of names, every generator constructor raises the
  package's error, whatever the names are: with explicit files as well the message is
  "Use either ... not both", with a directory holding neither file it is "Embedding file
  not found", and when both files are found the names list compared against the two
  files is the empty one, so the message is "Input list of embedding names does not
  match number of embeddings", also for exactly two names.
\<close>

theorem directories_with_names_always_raise:
  assumes "p \<noteq> [] \<or> i \<noteq> []"
  shows "\<exists>m. EmbeddingGenerator_init exists dims (Some p) (Some i) files (Some ns)
               = Inl (CellmapsCoEmbeddingError m)
           \<and> FakeCoEmbeddingGenerator_init exists dims (Some p) (Some i) files (Some ns)
               = Inl (CellmapsCoEmbeddingError m)
           \<and> MuseCoEmbeddingGenerator_init exists dims params od files (Some p) (Some i) (Some ns) percent
               = Inl (CellmapsCoEmbeddingError m)
           \<and> (\<not> truthy files
                 \<and> (exists (path_join p PPI_EMBEDDING_FILE) \<or> exists (path_join p IMAGE_EMBEDDING_FILE))
                 \<and> (exists (path_join i PPI_EMBEDDING_FILE) \<or> exists (path_join i IMAGE_EMBEDDING_FILE))
                 \<longrightarrow> m = NamesDoNotMatch)"
proof -
  from files_and_names_both_directories [OF assms, of exists files ns]
  obtain m where m: "get_embedding_files_and_names exists files (Some p) (Some i) (Some ns)
               = Inl (CellmapsCoEmbeddingError m)"
      and why: "\<not> truthy files
                 \<and> (exists (path_join p PPI_EMBEDDING_FILE) \<or> exists (path_join p IMAGE_EMBEDDING_FILE))
                 \<and> (exists (path_join i PPI_EMBEDDING_FILE) \<or> exists (path_join i IMAGE_EMBEDDING_FILE))
                 \<longrightarrow> m = NamesDoNotMatch"
    by blast
  from m why show ?thesis
    by (intro exI [of _ m]) (simp add: init_Inl)
qed

theorem directories_with_names_always_raise_witness:
  "EmbeddingGenerator_init (\<lambda>_. True) 128 (Some ''/ppi'') (Some ''/img'') None
     (Some [''PPI'', ''image''])
   = Inl (CellmapsCoEmbeddingError NamesDoNotMatch)"
  using directories_with_names_always_raise
          [where p = "''/ppi''" and i = "''/img''" and exists = "\<lambda>_. True" and dims = 128
             and files = None and ns = "[''PPI'', ''image'']"]
  by (auto simp: truthy_def)

text \<open>
  Claim C9. With exactly one of the two directory arguments given and no explicit
  embedding files, every generator constructor fails, and it fails with \<open>TypeError\<close>
  (from \<open>os.path.join\<close> on the missing directory) or with "Embedding file not found in
  <the given directory>", never with the message that both directories or the
  embeddings are required.
\<close>

theorem single_directory_falls_through:
  assumes "(ppi_dir = Some d \<and> image_dir = None) \<or> (ppi_dir = None \<and> image_dir = Some d)"
  shows "\<exists>e. (e = TypeError \<or> e = CellmapsCoEmbeddingError (EmbeddingFileNotFound d))
           \<and> e \<noteq> CellmapsCoEmbeddingError DirsOrEmbeddingsRequired
           \<and> EmbeddingGenerator_init exists dims ppi_dir image_dir None names = Inl e
           \<and> FakeCoEmbeddingGenerator_init exists dims ppi_dir image_dir None names = Inl e
           \<and> MuseCoEmbeddingGenerator_init exists dims params od None ppi_dir image_dir names percent
               = Inl e"
  using files_and_names_single_directory [OF assms, of exists names]
  by (auto simp: init_Inl)

theorem single_directory_falls_through_witness:
  "EmbeddingGenerator_init (\<lambda>_. True) 128 (Some ''/ppi'') None None None = Inl TypeError
   \<and> EmbeddingGenerator_init (\<lambda>_. False) 128 (Some ''/ppi'') None None None
       = Inl (CellmapsCoEmbeddingError (EmbeddingFileNotFound ''/ppi''))"
  using single_directory_falls_through
          [where ppi_dir = "Some ''/ppi''" and image_dir = None and d = "''/ppi''"
             and exists = "\<lambda>_. True" and dims = 128 and names = None]
        single_directory_falls_through
          [where ppi_dir = "Some ''/ppi''" and image_dir = None and d = "''/ppi''"
             and exists = "\<lambda>_. False" and dims = 128 and names = None]
  by (auto simp: EmbeddingGenerator_init_def get_embedding_files_and_names_def truthy_def
        get_embedding_file_from_dirs_def os_path_join_def)

text \<open>
  Claim C3. When the number of names differs from the number of embedding files (the
  explicit files when no directory is given; the two files found when both directories
  are given), every generator constructor raises the package's error "Input list of
  embedding names does not match number of embeddings" (the specification's
  ConfigurationError), and the command run with these arguments leaves no merged
  embedding table behind.
\<close>

theorem names_files_mismatch_raises:
  assumes "(\<not> truthy ppi_dir \<and> \<not> truthy image_dir \<and> files = Some fs \<and> length ns \<noteq> length fs)
         \<or> (ppi_dir = Some p \<and> image_dir = Some i \<and> (p \<noteq> [] \<or> i \<noteq> []) \<and> \<not> truthy files
             \<and> (exists (path_join p PPI_EMBEDDING_FILE) \<or> exists (path_join p IMAGE_EMBEDDING_FILE))
             \<and> (exists (path_join i PPI_EMBEDDING_FILE) \<or> exists (path_join i IMAGE_EMBEDDING_FILE))
             \<and> length ns \<noteq> 2)"
  shows "EmbeddingGenerator_init exists dims ppi_dir image_dir files (Some ns)
           = Inl (CellmapsCoEmbeddingError NamesDoNotMatch)
       \<and> FakeCoEmbeddingGenerator_init exists dims ppi_dir image_dir files (Some ns)
           = Inl (CellmapsCoEmbeddingError NamesDoNotMatch)
       \<and> MuseCoEmbeddingGenerator_init exists dims params od files ppi_dir image_dir (Some ns) percent
           = Inl (CellmapsCoEmbeddingError NamesDoNotMatch)
       \<and> coembedding_file
           (snd (main host
                  (a\<lparr>arg_embeddings := files, arg_embedding_names := Some ns,
                     arg_ppi_embeddingdir := ppi_dir, arg_image_embeddingdir := image_dir\<rparr>)
                  (s\<lparr>coembedding_file := None\<rparr>)))
           = None"
  using files_and_names_mismatch [OF assms]
  by (simp add: init_Inl main_state_unchanged)

theorem names_files_mismatch_raises_witness:
  "EmbeddingGenerator_init (\<lambda>_. True) 128 None None
      (Some [''a.tsv'', ''b.tsv'', ''c.tsv'']) (Some [''A'', ''B''])
     = Inl (CellmapsCoEmbeddingError NamesDoNotMatch)"
proof -
  have h: "(\<not> truthy (None :: string option) \<and> \<not> truthy (None :: string option)
              \<and> Some [''a.tsv'', ''b.tsv'', ''c.tsv''] = Some [''a.tsv'', ''b.tsv'', ''c.tsv'']
              \<and> length [''A'', ''B''] \<noteq> length [''a.tsv'', ''b.tsv'', ''c.tsv''])
         \<or> ((None :: string option) = Some p \<and> (None :: string option) = Some i
             \<and> (p \<noteq> [] \<or> i \<noteq> []) \<and> \<not> truthy (Some [''a.tsv'', ''b.tsv'', ''c.tsv''])
             \<and> ((\<lambda>_. True) (path_join p PPI_EMBEDDING_FILE) \<or> (\<lambda>_. True) (path_join p IMAGE_EMBEDDING_FILE))
             \<and> ((\<lambda>_. True) (path_join i PPI_EMBEDDING_FILE) \<or> (\<lambda>_. True) (path_join i IMAGE_EMBEDDING_FILE))
             \<and> length [''A'', ''B''] \<noteq> 2)" for p i :: string
    by (simp add: truthy_def)
  from names_files_mismatch_raises [OF h, THEN conjunct1] show ?thesis .
qed

section \<open>The fake generator: what it yields\<close>

text \<open>
  Claim C2. On the two tables of the test (\<open>gene1, gene2\<close> and \<open>gene2, gene3\<close>) with
  \<open>dimensions=128\<close> the fake generator is expected to yield exactly one row, \<open>gene2\<close>
  followed by 128 random numbers. The code yields no row: reading \<open>x\<close> on line 246
  raises \<open>NameError\<close> when the first row is asked for.
\<close>

theorem fake_generator_yields_no_row:
  "fake_get_next_embedding example_host example_fake
     = \<lparr>side_file = None, rows = [], raised = Some NameError\<rparr>"
  by (simp add: fake_get_next_embedding_def read_name_def runner_module_names_def)

section \<open>The run and its finish record\<close>












lemma run_try_split: "run_try host self = block (run_statements host self @ [set_exitcode 0])"
  by (simp add: run_try_def run_statements_def)









section \<open>Alignment of the embedding tables\<close>


lemma map_error_length:
  "map_error f xs = Inr ys \<Longrightarrow> length ys = length xs"
  by (induction xs arbitrary: ys) (auto split: sum.splits)



lemma gene_names_loop_Inr:
  "[] \<notin> set e \<Longrightarrow> gene_names_loop acc e = Inr (acc \<union> set (map hd e))"
proof (induction e arbitrary: acc)
  case Nil
  show ?case by simp
next
  case (Cons row e)
  then obtain n cells where "row = n # cells" by (cases row) auto
  with Cons show ?case by simp
qed

lemma get_set_of_gene_names_Inr:
  "[] \<notin> set e \<Longrightarrow> get_set_of_gene_names e = Inr (set (map hd e))"
  by (simp add: get_set_of_gene_names_def gene_names_loop_Inr)

lemma get_set_of_gene_names_sorted:
  "[] \<notin> set e \<Longrightarrow> get_set_of_gene_names (sort_key hd e) = Inr (set (map hd e))"
  using get_set_of_gene_names_Inr [of "sort_key hd e"] by simp

















section \<open>The MUSE generator: held-out identifiers and rows\<close>

lemma emit_rows_eq:
  "emit_rows names res
     = (rows_of names res, if length names < length res then Some IndexError else None)"
  by (induction names res rule: emit_rows.induct) (simp_all add: rows_of_def)

lemma rows_of_length:
  assumes "\<forall>v \<in> set res. int (length v) = D"
  shows "\<forall>row \<in> set (rows_of names res). int (length row) = D + 1"
  using assms by (auto simp: rows_of_def dest!: set_zip_rightD)




















section \<open>The merged table\<close>

lemma block_invariant:
  assumes "\<forall>stmt \<in> set stmts. \<forall>s. I s \<longrightarrow> I (snd (stmt s))" and "I s"
  shows "I (snd (block stmts s))"
  using assms
proof (induction stmts arbitrary: s)
  case Nil
  then show ?case by simp
next
  case (Cons stmt stmts)
  obtain r s' where r: "stmt s = (r, s')" by (cases "stmt s")
  from Cons.prems r have s': "I s'" by fastforce
  show ?case
  proof (cases r)
    case None
    from Cons.IH [of s'] Cons.prems(1) s' have "I (snd (block stmts s'))" by simp
    with r None show ?thesis by simp
  next
    case (Some e)
    with r s' show ?thesis by simp
  qed
qed

lemma write_rows_prefix:
  "\<exists>n. snd (write_rows fails i acc rs) = acc @ take n rs"
proof (induction rs arbitrary: i acc)
  case Nil
  show ?case by simp
next
  case (Cons row rs)
  show ?case
  proof (cases "fails (WriteRow i)")
    case (Some e)
    then have "snd (write_rows fails i acc (row # rs)) = acc @ take 0 (row # rs)" by simp
    then show ?thesis by blast
  next
    case None
    from Cons [of "Suc i" "acc @ [row]"] obtain n
      where "snd (write_rows fails (Suc i) (acc @ [row]) rs) = (acc @ [row]) @ take n rs" ..
    with None have "snd (write_rows fails i acc (row # rs)) = acc @ take (Suc n) (row # rs)"
      by simp
    then show ?thesis by blast
  qed
qed

lemma write_rows_all:
  "\<forall>j. fails (WriteRow j) = None \<Longrightarrow> write_rows fails i acc rs = (None, acc @ rs)"
  by (induction rs arbitrary: i acc) simp_all

lemma muse_rows_shape:
  assumes "fit_returns_latent_vectors host"
  shows "\<forall>row \<in> set (rows (muse_get_next_embedding host self)).
           int (length row) = dimensions self + 1"
proof -
  have fit: "\<forall>row \<in> set (rows_of names res). int (length row) = dimensions self + 1"
    if "muse_fit_predict host resultsdir modality_data modality_names name_index test_subset
          (dimensions self) params = Inr res"
    for resultsdir modality_data modality_names name_index test_subset params res names
  proof (rule rows_of_length)
    from assms that show "\<forall>v \<in> set res. int (length v) = dimensions self"
      unfolding fit_returns_latent_vectors_def by blast
  qed
  show ?thesis
    unfolding muse_get_next_embedding_def
    by (auto simp: emit_rows_eq dest: fit split: sum.splits prod.splits option.splits)
qed

lemma generator_rows_shape:
  assumes "fit_returns_latent_vectors host"
  shows "\<forall>row \<in> set (rows (get_next_embedding host g)). int (length row) = get_dimensions g + 1"
proof (cases g)
  case (MuseGen m)
  with muse_rows_shape [OF assms, of m] show ?thesis by simp
next
  case (FakeGen f)
  then show ?thesis
    by (simp add: fake_get_next_embedding_def split: sum.splits)
qed

lemma table_shape_prefix:
  assumes "\<forall>row \<in> set rs. int (length row) = D + 1"
  shows "table_shape D (Some (path, [StrCell [] # map IntCell [1..D - 1]] @ take n rs))"
  using assms by (auto simp: table_shape_def dest: in_set_takeD)

lemma write_coembedding_shape:
  assumes contract: "fit_returns_latent_vectors host"
    and before: "table_shape (get_dimensions (embedding_generator self)) (coembedding_file s)"
  shows "table_shape (get_dimensions (embedding_generator self))
           (coembedding_file (snd (write_coembedding host self s)))"
proof -
  let ?g = "embedding_generator self"
  let ?D = "get_dimensions ?g"
  let ?header = "StrCell [] # map IntCell [1..?D - 1]"
  show ?thesis
  proof (cases "os_path_join (outdir self) CO_EMBEDDING_FILE")
    case (Inl e)
    with before show ?thesis by (simp add: write_coembedding_def)
  next
    case (Inr path)
    show ?thesis
    proof (cases "raises host OpenCoEmbeddingFile")
      case (Some e)
      with Inr before show ?thesis by (simp add: write_coembedding_def)
    next
      case None
      show ?thesis
      proof (cases "raises host (WriteRow 0)")
        case (Some e)
        with Inr None show ?thesis
          by (simp add: write_coembedding_def table_shape_def)
      next
        case ok: None
        obtain err written where
          w: "write_rows (raises host) 1 [?header] (rows (get_next_embedding host ?g))
                = (err, written)"
          by (cases "write_rows (raises host) 1 [?header] (rows (get_next_embedding host ?g))")
        from write_rows_prefix [of "raises host" 1 "[?header]" "rows (get_next_embedding host ?g)"] w
        obtain n where n: "written = [?header] @ take n (rows (get_next_embedding host ?g))"
          by auto
        have shape: "table_shape ?D (Some (path, written))"
          unfolding n by (rule table_shape_prefix) (rule generator_rows_shape [OF contract])
        have "coembedding_file (snd (write_coembedding host self s)) = Some (path, written)"
          using Inr None ok w
          by (simp add: write_coembedding_def Let_def split: option.splits)
        with shape show ?thesis by simp
      qed
    qed
  qed
qed

lemma run_statements_shape:
  assumes contract: "fit_returns_latent_vectors host"
  shows "\<forall>stmt \<in> set (run_statements host self @ [set_exitcode 0]).
           \<forall>s. table_shape (get_dimensions (embedding_generator self)) (coembedding_file s)
               \<longrightarrow> table_shape (get_dimensions (embedding_generator self))
                     (coembedding_file (snd (stmt s)))"
  using write_coembedding_shape [OF contract, of self]
  by (auto simp: run_statements_def external_def check_outdir_def make_outdir_def
        setup_filelogger_def write_task_start_json_def check_inputdirs_def create_rocrate_def
        set_exitcode_def split: option.splits error.splits)

lemma run_coembedding_file:
  "coembedding_file (snd (run host self s))
     = coembedding_file (snd (run_try host self (s\<lparr>exitcode := 99\<rparr>)))"
  by (simp add: run_def Let_def split: prod.splits option.splits)

lemma run_shape:
  assumes contract: "fit_returns_latent_vectors host"
    and before: "table_shape (get_dimensions (embedding_generator self)) (coembedding_file s)"
  shows "table_shape (get_dimensions (embedding_generator self))
           (coembedding_file (snd (run host self s)))"
proof -
  let ?I = "\<lambda>s. table_shape (get_dimensions (embedding_generator self)) (coembedding_file s)"
  from before have "?I (s\<lparr>exitcode := 99\<rparr>)" by simp
  with run_statements_shape [OF contract, of self]
  have "?I (snd (block (run_statements host self @ [set_exitcode 0]) (s\<lparr>exitcode := 99\<rparr>)))"
    by (rule block_invariant)
  then show ?thesis
    by (simp add: run_coembedding_file run_try_split)
qed

lemma run_writes_table:
  assumes quiet: "raises host = (\<lambda>c. None)"
    and od: "outdir self = Some od"
    and dirs: "inputdirs self = Some dirs"
  shows "coembedding_file (snd (run host self s))
           = Some (path_join od CO_EMBEDDING_FILE,
                   (StrCell [] # map IntCell [1..get_dimensions (embedding_generator self) - 1])
                   # rows (get_next_embedding host (embedding_generator self)))"
proof -
  have q: "write_rows (\<lambda>c. None) i acc rs = (None, acc @ rs)"
    for i and acc rs :: "'a cell list list"
    by (rule write_rows_all) simp
  have w: "write_coembedding host self t
             = (raised (get_next_embedding host (embedding_generator self)),
                (case side_file (get_next_embedding host (embedding_generator self)) of
                   None \<Rightarrow> t
                 | Some f \<Rightarrow> t\<lparr>test_genes_file := Some f\<rparr>)
                \<lparr>coembedding_file :=
                   Some (path_join od CO_EMBEDDING_FILE,
                         (StrCell [] # map IntCell [1..get_dimensions (embedding_generator self) - 1])
                         # rows (get_next_embedding host (embedding_generator self)))\<rparr>)" for t
    by (simp add: write_coembedding_def od os_path_join_def quiet q Let_def)
  show ?thesis
    unfolding run_coembedding_file run_try_def
    by (simp add: check_outdir_def make_outdir_def setup_filelogger_def
          write_task_start_json_def check_inputdirs_def external_def create_rocrate_def
          set_exitcode_def od dirs quiet w split: option.splits)
qed

text \<open>
  Claim C7. When the fit returns vectors of the requested length \<open>D\<close>, whatever a run
  writes into the merged table has the header row of an empty cell followed by the
  labels 1 to \<open>D - 1\<close> and data rows of exactly \<open>D + 1\<close> cells; and when no collaborator
  raises, the table is written: that header, then every row of the generator.
\<close>

theorem merged_table_shape:
  assumes contract: "fit_returns_latent_vectors host"
    and fresh: "coembedding_file s = None"
  shows "table_shape (get_dimensions (embedding_generator self))
           (coembedding_file (snd (run host self s)))
       \<and> (raises host = (\<lambda>c. None) \<and> outdir self = Some od \<and> inputdirs self = Some dirs
            \<longrightarrow> coembedding_file (snd (run host self s))
                  = Some (path_join od CO_EMBEDDING_FILE,
                          (StrCell [] # map IntCell [1..get_dimensions (embedding_generator self) - 1])
                          # rows (get_next_embedding host (embedding_generator self))))"
proof
  from fresh have "table_shape (get_dimensions (embedding_generator self)) (coembedding_file s)"
    by (simp add: table_shape_def)
  then show "table_shape (get_dimensions (embedding_generator self))
           (coembedding_file (snd (run host self s)))"
    by (rule run_shape [OF contract])
  show "raises host = (\<lambda>c. None) \<and> outdir self = Some od \<and> inputdirs self = Some dirs
            \<longrightarrow> coembedding_file (snd (run host self s))
                  = Some (path_join od CO_EMBEDDING_FILE,
                          (StrCell [] # map IntCell [1..get_dimensions (embedding_generator self) - 1])
                          # rows (get_next_embedding host (embedding_generator self)))"
    using run_writes_table by blast
qed

lemma example_fit_returns: "fit_returns_latent_vectors example_host"
  by (auto simp: fit_returns_latent_vectors_def example_host_def example_fit_def
        split: if_splits)

theorem merged_table_shape_witness:
  "coembedding_file
     (snd (run example_host (example_embedder (MuseGen example_muse)) example_state))
     = Some (''/out/coembedding_emd.tsv'',
             [[StrCell [], IntCell 1, IntCell 2],
              [StrCell ''gene2'', FloatCell 0, FloatCell 0, FloatCell 0]])
   \<and> get_dimensions (embedding_generator (example_embedder (MuseGen example_muse))) = 3
   \<and> table_shape 3
        (Some (''/out/coembedding_emd.tsv'',
               [[StrCell [], IntCell 1, IntCell 2],
                [StrCell ''gene2'', FloatCell 0, FloatCell 0, FloatCell 0 :: rat cell]]))"
proof -
  have fresh: "coembedding_file example_state = None"
    by (simp add: example_state_def)
  have ev: "coembedding_file
     (snd (run example_host (example_embedder (MuseGen example_muse)) example_state))
     = Some (''/out/coembedding_emd.tsv'',
             [[StrCell [], IntCell 1, IntCell 2],
              [StrCell ''gene2'', FloatCell 0, FloatCell 0, FloatCell 0]])"
    by code_simp
  have d: "get_dimensions (embedding_generator (example_embedder (MuseGen example_muse))) = 3"
    by (simp add: example_embedder_def example_muse_def)
  from merged_table_shape [OF example_fit_returns fresh,
         of "example_embedder (MuseGen example_muse)", THEN conjunct1]
  have "table_shape 3
        (Some (''/out/coembedding_emd.tsv'',
               [[StrCell [], IntCell 1, IntCell 2],
                [StrCell ''gene2'', FloatCell 0, FloatCell 0, FloatCell 0 :: rat cell]]))"
    by (simp only: ev d)
  with ev d show ?thesis by simp
qed


end
